theory Spec2Isabelle
  imports Complex_Main "HOL-Library.AList"
begin

section \<open>Values of the program\<close>

text \<open>
  Prices are Python builtin floats. The model keeps the finite values as reals (IEEE
  rounding is abstracted) and positive infinity, \<^verbatim>\<open>np.inf\<close>, as a value of its own.
  The order is the one of Python's comparison on these values. Negative infinity and
  NaN are left out: the \<^verbatim>\<open>REAL\<close> column stores no NaN, and no price parsed from a
  page is ever compared or added (see \<open>record_price_raises\<close> below).
\<close>

datatype pyfloat = Fin real | PInf

instantiation pyfloat :: linorder
begin

fun less_eq_pyfloat :: "pyfloat \<Rightarrow> pyfloat \<Rightarrow> bool" where
  "less_eq_pyfloat (Fin a) (Fin b) = (a \<le> b)"
| "less_eq_pyfloat PInf (Fin b) = False"
| "less_eq_pyfloat x PInf = True"

definition less_pyfloat :: "pyfloat \<Rightarrow> pyfloat \<Rightarrow> bool" where
  "less_pyfloat x y = (x \<le> y \<and> \<not> y \<le> x)"

instance
proof
  fix x y z :: pyfloat
  show "(x < y) = (x \<le> y \<and> \<not> y \<le> x)"
    by (simp add: less_pyfloat_def)
  show "x \<le> x"
    by (cases x) simp_all
  show "x \<le> y \<Longrightarrow> y \<le> z \<Longrightarrow> x \<le> z"
    by (cases x; cases y; cases z) simp_all
  show "x \<le> y \<Longrightarrow> y \<le> x \<Longrightarrow> x = y"
    by (cases x; cases y) simp_all
  show "x \<le> y \<or> y \<le> x"
    by (cases x; cases y) auto
qed

end

text \<open>\<^verbatim>\<open>sys.float_info.max\<close>, the largest finite double: \<open>(2 - 2\<^sup>-\<^sup>5\<^sup>2) * 2\<^sup>1\<^sup>0\<^sup>2\<^sup>3\<close>.\<close>

definition float_info_max :: real where
  "float_info_max = (2 ^ 53 - 1) * 2 ^ 971"

datatype exn = IndexError | AttributeError | ValueError | TypeError

section \<open>The prices table, the log of effects, the environment\<close>

text \<open>
  A row of \<^verbatim>\<open>prices (url TEXT, price REAL, time TEXT)\<close>. The table has no key
  constraint, so it is a list of rows in insertion order. The \<^verbatim>\<open>time\<close> column holds
  \<^verbatim>\<open>CURRENT_TIMESTAMP\<close> values, which have a precision of one second: they are
  modelled as a number of seconds.
\<close>

type_synonym row = "string \<times> pyfloat \<times> int"

datatype event =
    Select_price string
  | Select_time string
  | Select_current_timestamp
  | Update_prices pyfloat int string
  | Insert_prices string pyfloat int
  | Commit
  | Rollback
  | Get string
  | Print_timeout
  | Warn string string
  | Print_recent string string
  | Print_updated string string pyfloat
  | Print_added string string pyfloat
  | Print_best string pyfloat
  | Print_breakdown string
  | Print_prices "(string \<times> pyfloat) list"
  | To_csv string "(string \<times> pyfloat) list"

record world =
  table :: "row list"
  ticks :: nat
  log :: "event list"

text \<open>
  What the program does not decide: the wall clock (the value of the n-th read of
  \<^verbatim>\<open>CURRENT_TIMESTAMP\<close>), the pages the browser loads, and Python's \<^verbatim>\<open>float\<close> on a
  string (\<open>None\<close> when it raises \<^verbatim>\<open>ValueError\<close>).
\<close>

record env =
  clock :: "nat \<Rightarrow> int"
  pricing_located :: "string \<Rightarrow> bool"
  pricing_elements :: "string \<Rightarrow> string option list"
  fraction_located :: "string \<Rightarrow> bool"
  price_whole_elements :: "string \<Rightarrow> string list"
  price_fraction_elements :: "string \<Rightarrow> string list"
  float_of_str :: "string \<Rightarrow> pyfloat option"

definition emit :: "event \<Rightarrow> world \<Rightarrow> world" where
  "emit e w = w\<lparr>log := log w @ [e]\<rparr>"

section \<open>Python and SQL primitives\<close>

text \<open>\<^verbatim>\<open>str.split(sep)\<close> for a separator of one character.\<close>

fun split :: "char \<Rightarrow> string \<Rightarrow> string list" where
  "split sep [] = [[]]"
| "split sep (c # cs) =
     (if c = sep then [] # split sep cs
      else (case split sep cs of [] \<Rightarrow> [[c]] | p # ps \<Rightarrow> (c # p) # ps))"

text \<open>\<^verbatim>\<open>xs[i]\<close> for a non-negative index: \<^verbatim>\<open>IndexError\<close> out of range.\<close>

definition index :: "'a list \<Rightarrow> nat \<Rightarrow> exn + 'a" where
  "index xs i = (if i < length xs then Inr (xs ! i) else Inl IndexError)"

text \<open>\<^verbatim>\<open>cursor.fetchone()\<close> of a \<^verbatim>\<open>SELECT ... WHERE url=?\<close>: the first matching row.\<close>

definition select_price :: "string \<Rightarrow> world \<Rightarrow> pyfloat option \<times> world" where
  "select_price url w =
     (map_option (\<lambda>r. fst (snd r)) (find (\<lambda>r. fst r = url) (table w)),
      emit (Select_price url) w)"

definition select_time :: "string \<Rightarrow> world \<Rightarrow> int option \<times> world" where
  "select_time url w =
     (map_option (\<lambda>r. snd (snd r)) (find (\<lambda>r. fst r = url) (table w)),
      emit (Select_time url) w)"

definition current_timestamp :: "env \<Rightarrow> world \<Rightarrow> int \<times> world" where
  "current_timestamp e w =
     (clock e (ticks w), emit Select_current_timestamp (w\<lparr>ticks := Suc (ticks w)\<rparr>))"

text \<open>\<^verbatim>\<open>UPDATE prices SET price=?, time=? WHERE url=?\<close> rewrites every matching row.\<close>

definition update_prices :: "pyfloat \<Rightarrow> int \<Rightarrow> string \<Rightarrow> world \<Rightarrow> world" where
  "update_prices price time url w =
     emit (Update_prices price time url)
       (w\<lparr>table := map (\<lambda>r. if fst r = url then (url, price, time) else r) (table w)\<rparr>)"

definition insert_prices :: "string \<Rightarrow> pyfloat \<Rightarrow> int \<Rightarrow> world \<Rightarrow> world" where
  "insert_prices url price time w =
     emit (Insert_prices url price time) (w\<lparr>table := table w @ [(url, price, time)]\<rparr>)"

text \<open>
  Leaving a \<^verbatim>\<open>with self.sql_conn:\<close> block: the connection commits when the block
  ends normally and rolls back to the table at the last commit when it raises.
\<close>

definition commit :: "world \<Rightarrow> world" where
  "commit w = emit Commit w"

definition rollback :: "row list \<Rightarrow> world \<Rightarrow> world" where
  "rollback committed w = emit Rollback (w\<lparr>table := committed\<rparr>)"

text \<open>
  \<^verbatim>\<open>price.round(2)\<close> on a builtin float. A builtin float has no attribute
  \<^verbatim>\<open>round\<close> (numpy scalars have one), so the attribute lookup raises. Every price
  that reaches the call is a builtin float: the result of \<^verbatim>\<open>float(...)\<close>,
  \<^verbatim>\<open>np.inf\<close> or \<^verbatim>\<open>sys.float_info.max\<close>.
\<close>

definition float_round :: "pyfloat \<Rightarrow> nat \<Rightarrow> exn + pyfloat" where
  "float_round price ndigits = Inl AttributeError"

section \<open>PriceScraper\<close>

definition get_microcenter_price :: "env \<Rightarrow> string \<Rightarrow> world \<Rightarrow> (exn + pyfloat) \<times> world" where
  "get_microcenter_price e url w =
     (let w1 = emit (Get url) w;
          w2 = (if pricing_located e url then w1 else emit Print_timeout w1);
          price = pricing_elements e url
      in if length price = 0 then (Inr PInf, w2)
         else (case hd price of
                 None \<Rightarrow> (Inl TypeError, w2)
               | Some content \<Rightarrow>
                   (case float_of_str e content of
                      None \<Rightarrow> (Inl ValueError, w2)
                    | Some x \<Rightarrow> (Inr x, w2))))"

definition get_amazon_price :: "env \<Rightarrow> string option \<Rightarrow> world \<Rightarrow> (exn + pyfloat) \<times> world" where
  "get_amazon_price e url w =
     (case url of
        None \<Rightarrow> (Inr PInf, w)
      | Some u \<Rightarrow>
          (let w1 = emit (Get u) w;
               w2 = (if fraction_located e u then w1 else emit Print_timeout w1);
               price_whole = price_whole_elements e u;
               price_frac = price_fraction_elements e u
           in if length price_whole = 0 \<or> length price_frac = 0 then (Inr PInf, w2)
              else (case float_of_str e (hd price_whole @ ''.'' @ hd price_frac) of
                      None \<Rightarrow> (Inl ValueError, w2)
                    | Some x \<Rightarrow> (Inr x, w2))))"

text \<open>\<^verbatim>\<open>url.split('/')[2]\<close>, then \<^verbatim>\<open>domain.split('.')[1]\<close>.\<close>

definition url_domain :: "string \<Rightarrow> exn + string" where
  "url_domain url =
     (case index (split CHR ''/'' url) 2 of
        Inl x \<Rightarrow> Inl x
      | Inr domain \<Rightarrow> index (split CHR ''.'' domain) 1)"

text \<open>The \<^verbatim>\<open>match domain\<close> statement of \<^verbatim>\<open>get_pricing\<close>.\<close>

definition match_domain :: "env \<Rightarrow> string \<Rightarrow> string \<Rightarrow> string \<Rightarrow> world \<Rightarrow> (exn + pyfloat) \<times> world" where
  "match_domain e name domain url w =
     (if domain = ''microcenter'' then get_microcenter_price e url w
      else if domain = ''amazon'' then get_amazon_price e (Some url) w
      else (Inr (Fin float_info_max), emit (Warn name domain) w))"

text \<open>
  The second \<^verbatim>\<open>with self.sql_conn:\<close> block of \<^verbatim>\<open>get_pricing\<close>. The statement is
  executed first; the \<^verbatim>\<open>print\<close> after it formats \<^verbatim>\<open>price.round(2)\<close>; the commit
  comes last. When the block raises, the connection rolls the statement back.
\<close>

definition record_price ::
  "env \<Rightarrow> string \<Rightarrow> string \<Rightarrow> string \<Rightarrow> pyfloat \<Rightarrow> bool \<Rightarrow> world \<Rightarrow> (exn + pyfloat) \<times> world" where
  "record_price e name domain url price sql_entry_outdated w =
     (let (time, w1) = current_timestamp e w
      in if sql_entry_outdated then
           (let w2 = update_prices price time url w1
            in case float_round price 2 of
                 Inl x \<Rightarrow> (Inl x, rollback (table w) w2)
               | Inr r \<Rightarrow> (Inr price, commit (commit (emit (Print_updated name domain r) w2))))
         else
           (let w2 = insert_prices url price time w1
            in case float_round price 2 of
                 Inl x \<Rightarrow> (Inl x, rollback (table w) w2)
               | Inr r \<Rightarrow> (Inr price, commit (commit (emit (Print_added name domain r) w2)))))"

text \<open>
  \<^verbatim>\<open>get_pricing\<close>: the check for \<^verbatim>\<open>None\<close>, the domain of the URL, the first
  \<^verbatim>\<open>with\<close> block (two queries and a read of the clock, then either the return of the
  cached price or the end of the block), the \<^verbatim>\<open>match\<close>, and the second block. Both
  queries read the same table, so \<^verbatim>\<open>time_last\<close> is \<open>None\<close> only when
  \<^verbatim>\<open>price\<close> is.
\<close>

definition get_pricing :: "env \<Rightarrow> string \<Rightarrow> string option \<Rightarrow> world \<Rightarrow> (exn + pyfloat) \<times> world" where
  "get_pricing e name url w =
     (case url of
        None \<Rightarrow> (Inr PInf, w)
      | Some u \<Rightarrow>
          (case url_domain u of
             Inl x \<Rightarrow> (Inl x, w)
           | Inr domain \<Rightarrow>
               (let (price, w1) = select_price u w;
                    (time_last, w2) = select_time u w1;
                    (time_now, w3) = current_timestamp e w2
                in case price of
                     None \<Rightarrow>
                       (case match_domain e name domain u (commit w3) of
                          (Inl x, w4) \<Rightarrow> (Inl x, w4)
                        | (Inr fetched, w4) \<Rightarrow> record_price e name domain u fetched False w4)
                   | Some cached \<Rightarrow>
                       if (case time_last of None \<Rightarrow> False | Some t \<Rightarrow> time_now - t \<le> 86400)
                       then (Inr cached, commit (emit (Print_recent name domain) w3))
                       else
                         (case match_domain e name domain u (commit w3) of
                            (Inl x, w4) \<Rightarrow> (Inl x, w4)
                          | (Inr fetched, w4) \<Rightarrow> record_price e name domain u fetched True w4))))"

section \<open>Product and PCBuild\<close>

record product =
  product_name :: string
  links :: "(string \<times> string option) list"

text \<open>The loop of \<^verbatim>\<open>best_price\<close> over \<^verbatim>\<open>self.links.values()\<close>.\<close>

fun best_price_loop ::
  "env \<Rightarrow> string \<Rightarrow> string option list \<Rightarrow> pyfloat \<Rightarrow> world \<Rightarrow> (exn + pyfloat) \<times> world" where
  "best_price_loop e name [] min_price w = (Inr min_price, w)"
| "best_price_loop e name (link # rest) min_price w =
     (case get_pricing e name link w of
        (Inl x, w') \<Rightarrow> (Inl x, w')
      | (Inr price, w') \<Rightarrow>
          best_price_loop e name rest (if price < min_price then price else min_price) w')"

definition best_price :: "env \<Rightarrow> product \<Rightarrow> world \<Rightarrow> (exn + pyfloat) \<times> world" where
  "best_price e p w =
     (case best_price_loop e (product_name p) (map snd (links p)) PInf w of
        (Inl x, w') \<Rightarrow> (Inl x, w')
      | (Inr min_price, w') \<Rightarrow> (Inr min_price, emit (Print_best (product_name p) min_price) w'))"

record pcbuild =
  build_name :: string
  parts :: "product list"
  prices :: "(string \<times> pyfloat) list"

text \<open>
  The loop of \<^verbatim>\<open>report_build\<close>: \<^verbatim>\<open>self.prices\<close> is a dict in insertion order,
  \<^verbatim>\<open>toal_price\<close> a number that starts at 0.
\<close>

fun report_loop ::
  "env \<Rightarrow> product list \<Rightarrow> (string \<times> pyfloat) list \<Rightarrow> real \<Rightarrow> world \<Rightarrow>
     (exn + (string \<times> pyfloat) list \<times> real) \<times> world" where
  "report_loop e [] prs toal_price w = (Inr (prs, toal_price), w)"
| "report_loop e (part # rest) prs toal_price w =
     (case best_price e part w of
        (Inl x, w') \<Rightarrow> (Inl x, w')
      | (Inr price, w') \<Rightarrow>
          report_loop e rest (AList.update (product_name part) price prs)
            (toal_price + (if price < PInf then (case price of Fin r \<Rightarrow> r | PInf \<Rightarrow> 0) else 0)) w')"

text \<open>
  \<^verbatim>\<open>report_build\<close> returns the build with its \<^verbatim>\<open>prices\<close>, the total and the rows
  of the data frame written to \<^verbatim>\<open>report_file\<close>.
\<close>

definition report_build ::
  "env \<Rightarrow> pcbuild \<Rightarrow> string \<Rightarrow> world \<Rightarrow>
     (exn + pcbuild \<times> real \<times> (string \<times> pyfloat) list) \<times> world" where
  "report_build e b report_file w =
     (case report_loop e (parts b) (prices b) 0 (emit (Print_breakdown (build_name b)) w) of
        (Inl x, w') \<Rightarrow> (Inl x, w')
      | (Inr (prs, toal_price), w') \<Rightarrow>
          (let df_build = AList.update ''Total'' (Fin toal_price) prs
           in (Inr (b\<lparr>prices := prs\<rparr>, toal_price, df_build),
               emit (To_csv report_file df_build) (emit (Print_prices prs) w'))))"

section \<open>Observations on a run\<close>

text \<open>The events a call appended to the log, and the kinds of event the properties speak of.\<close>

definition new_events :: "world \<Rightarrow> world \<Rightarrow> event list" where
  "new_events w w' = drop (length (log w)) (log w')"

fun is_get :: "event \<Rightarrow> bool" where
  "is_get (Get u) = True"
| "is_get _ = False"

fun is_warn :: "event \<Rightarrow> bool" where
  "is_warn (Warn n d) = True"
| "is_warn _ = False"

fun is_write :: "event \<Rightarrow> bool" where
  "is_write (Update_prices p t u) = True"
| "is_write (Insert_prices u p t) = True"
| "is_write _ = False"

text \<open>
  The first row of the URL, the one \<^verbatim>\<open>fetchone\<close> returns, is missing or older than
  86400 seconds at the next read of the clock.
\<close>

definition no_fresh_row :: "env \<Rightarrow> string \<Rightarrow> world \<Rightarrow> bool" where
  "no_fresh_row e url w =
     (case find (\<lambda>r. fst r = url) (table w) of
        None \<Rightarrow> True
      | Some (key, price, t) \<Rightarrow> \<not> clock e (ticks w) - t \<le> 86400)"

text \<open>The world when the first \<^verbatim>\<open>with\<close> block of \<^verbatim>\<open>get_pricing\<close> ends without a hit.\<close>

definition after_lookup :: "string \<Rightarrow> world \<Rightarrow> world" where
  "after_lookup url w =
     w\<lparr>ticks := Suc (ticks w),
       log := log w @ [Select_price url, Select_time url, Select_current_timestamp, Commit]\<rparr>"

text \<open>
  The prices \<^verbatim>\<open>get_pricing\<close> returns for the links of a product, called in order on
  the same connection: the prices that \<^verbatim>\<open>best_price\<close> is specified over.
\<close>

fun get_pricings ::
  "env \<Rightarrow> string \<Rightarrow> string option list \<Rightarrow> world \<Rightarrow> (exn + pyfloat list) \<times> world" where
  "get_pricings e name [] w = (Inr [], w)"
| "get_pricings e name (link # rest) w =
     (case get_pricing e name link w of
        (Inl x, w') \<Rightarrow> (Inl x, w')
      | (Inr price, w') \<Rightarrow>
          (case get_pricings e name rest w' of
             (Inl x, w'') \<Rightarrow> (Inl x, w'')
           | (Inr ps, w'') \<Rightarrow> (Inr (price # ps), w'')))"

section \<open>Concrete inputs\<close>

text \<open>
  A clock that reads \<open>now\<close> and pages on which no price element appears (every wait
  times out); the same clock and pages whose \<^verbatim>\<open>pricing\<close> element has the content
  \<^verbatim>\<open>7.0\<close>; a connection to a database file that holds the given rows.
\<close>

definition no_pages :: "int \<Rightarrow> env" where
  "no_pages now =
     \<lparr>clock = (\<lambda>n. now), pricing_located = (\<lambda>u. False), pricing_elements = (\<lambda>u. []),
      fraction_located = (\<lambda>u. False), price_whole_elements = (\<lambda>u. []),
      price_fraction_elements = (\<lambda>u. []), float_of_str = (\<lambda>s. None)\<rparr>"

definition priced_pages :: "int \<Rightarrow> env" where
  "priced_pages now =
     \<lparr>clock = (\<lambda>n. now), pricing_located = (\<lambda>u. True),
      pricing_elements = (\<lambda>u. [Some ''7.0'']),
      fraction_located = (\<lambda>u. False), price_whole_elements = (\<lambda>u. []),
      price_fraction_elements = (\<lambda>u. []),
      float_of_str = (\<lambda>s. if s = ''7.0'' then Some (Fin 7) else None)\<rparr>"

definition cache :: "row list \<Rightarrow> world" where
  "cache rows = \<lparr>table = rows, ticks = 0, log = []\<rparr>"

definition two_part_build :: pcbuild where
  "two_part_build =
     \<lparr>build_name = ''Build'',
      parts = [\<lparr>product_name = ''ram'',
                 links = [(''microcenter'', Some ''https://www.microcenter.com/product/1'')]\<rparr>,
               \<lparr>product_name = ''gpu'',
                 links = [(''newegg'', Some ''https://www.newegg.com/p/1'')]\<rparr>],
      prices = []\<rparr>"

section \<open>Facts about the primitives\<close>

lemma pyfloat_less_simps [simp]:
  "Fin a < Fin b \<longleftrightarrow> a < b"
  "Fin a < PInf"
  "\<not> PInf < x"
  by (cases x; auto simp: less_pyfloat_def)+

lemma float_info_max_pos: "0 < float_info_max"
  by (simp add: float_info_max_def)

lemma split_not_Nil [simp]: "split sep s \<noteq> []"
  by (induction s) (auto split: list.splits)

lemma length_split: "length (split sep s) = Suc (count_list s sep)"
  by (induction s) (auto split: list.splits)

lemma split_single: "sep \<notin> set s \<Longrightarrow> split sep s = [s]"
  by (induction s) auto

lemma length_split_less_2: "length (split sep s) < 2 \<longleftrightarrow> sep \<notin> set s"
  by (simp add: length_split count_list_0_iff)

lemma url_domain_index_error:
  assumes "count_list url CHR ''/'' < 2 \<or> CHR ''.'' \<notin> set (split CHR ''/'' url ! 2)"
  shows "url_domain url = Inl IndexError"
  using assms
  by (auto simp: url_domain_def index_def length_split split_single split: sum.splits)

text \<open>The domain parses in every other case, so the condition is exact.\<close>

lemma url_domain_ok:
  assumes "2 \<le> count_list url CHR ''/''" and "CHR ''.'' \<in> set (split CHR ''/'' url ! 2)"
  shows "\<exists>domain. url_domain url = Inr domain"
  using assms length_split_less_2[of "CHR ''.''" "split CHR ''/'' url ! 2"]
  by (auto simp: url_domain_def index_def length_split)

lemma float_round_raises [simp]: "float_round price n = Inl AttributeError"
  by (simp add: float_round_def)

lemmas run_defs = get_pricing_def url_domain_def index_def select_price_def select_time_def
  current_timestamp_def commit_def emit_def cache_def match_domain_def
  get_microcenter_price_def get_amazon_price_def record_price_def update_prices_def
  insert_prices_def rollback_def float_round_def new_events_def

section \<open>The two paths of get\_pricing\<close>

text \<open>The hit: the first row of the URL is at most 86400 seconds old.\<close>

lemma get_pricing_hit:
  assumes "url_domain url = Inr domain"
    and "find (\<lambda>r. fst r = url) (table w) = Some (key, price, t)"
    and "clock e (ticks w) - t \<le> 86400"
  shows "get_pricing e name (Some url) w =
     (Inr price, w\<lparr>ticks := Suc (ticks w),
        log := log w @ [Select_price url, Select_time url, Select_current_timestamp,
                        Print_recent name domain, Commit]\<rparr>)"
  using assms
  by (simp add: get_pricing_def select_price_def select_time_def current_timestamp_def
      commit_def emit_def)

text \<open>
  The write block always raises: the statement is executed, formatting the message
  raises \<^verbatim>\<open>AttributeError\<close>, and the connection rolls the statement back.
\<close>

lemma record_price_raises:
  "record_price e name domain url price outdated w =
     (Inl AttributeError,
      w\<lparr>ticks := Suc (ticks w),
        log := log w @ [Select_current_timestamp,
          if outdated then Update_prices price (clock e (ticks w)) url
          else Insert_prices url price (clock e (ticks w)),
          Rollback]\<rparr>)"
  by (simp add: record_price_def current_timestamp_def update_prices_def insert_prices_def
      rollback_def emit_def)

lemma get_microcenter_price_world:
  "\<exists>evs. snd (get_microcenter_price e url w) = w\<lparr>log := log w @ Get url # evs\<rparr> \<and>
     (evs = [] \<or> evs = [Print_timeout])"
  by (auto simp: get_microcenter_price_def emit_def Let_def split: option.splits)

lemma get_amazon_price_world:
  "\<exists>evs. snd (get_amazon_price e (Some url) w) = w\<lparr>log := log w @ Get url # evs\<rparr> \<and>
     (evs = [] \<or> evs = [Print_timeout])"
  by (auto simp: get_amazon_price_def emit_def Let_def split: option.splits)

lemma match_domain_world:
  "\<exists>evs. snd (match_domain e name domain url w) = w\<lparr>log := log w @ evs\<rparr> \<and>
     evs \<in> (if domain = ''microcenter'' \<or> domain = ''amazon''
            then {[Get url], [Get url, Print_timeout]} else {[Warn name domain]})"
proof -
  consider "domain = ''microcenter''" | "domain \<noteq> ''microcenter''" "domain = ''amazon''"
    | "domain \<noteq> ''microcenter''" "domain \<noteq> ''amazon''" by blast
  then show ?thesis
  proof cases
    case 1
    obtain evs where "snd (get_microcenter_price e url w) = w\<lparr>log := log w @ Get url # evs\<rparr>"
      "evs = [] \<or> evs = [Print_timeout]"
      using get_microcenter_price_world by blast
    then show ?thesis using 1 by (auto simp: match_domain_def intro!: exI[of _ "Get url # evs"])
  next
    case 2
    obtain evs where "snd (get_amazon_price e (Some url) w) = w\<lparr>log := log w @ Get url # evs\<rparr>"
      "evs = [] \<or> evs = [Print_timeout]"
      using get_amazon_price_world by blast
    then show ?thesis using 2 by (auto simp: match_domain_def intro!: exI[of _ "Get url # evs"])
  next
    case 3
    then show ?thesis by (simp add: match_domain_def emit_def)
  qed
qed

text \<open>The miss: no row, or a first row older than 86400 seconds.\<close>

lemma get_pricing_miss:
  assumes "url_domain url = Inr domain" and "no_fresh_row e url w"
  shows "get_pricing e name (Some url) w =
     (case match_domain e name domain url (after_lookup url w) of
        (Inl x, w4) \<Rightarrow> (Inl x, w4)
      | (Inr fetched, w4) \<Rightarrow>
          record_price e name domain url fetched
            (find (\<lambda>r. fst r = url) (table w) \<noteq> None) w4)"
  using assms
  by (auto simp: get_pricing_def no_fresh_row_def after_lookup_def select_price_def
      select_time_def current_timestamp_def commit_def emit_def
      split: option.splits prod.splits sum.splits)

lemma get_pricing_miss_world:
  assumes "url_domain url = Inr domain" and "no_fresh_row e url w"
  shows "\<exists>x evs evs' n. get_pricing e name (Some url) w =
       (Inl x, w\<lparr>ticks := n,
          log := log w @ [Select_price url, Select_time url, Select_current_timestamp, Commit]
                   @ evs @ evs'\<rparr>) \<and>
     evs \<in> (if domain = ''microcenter'' \<or> domain = ''amazon''
            then {[Get url], [Get url, Print_timeout]} else {[Warn name domain]}) \<and>
     (evs' = [] \<or> (\<exists>ev. is_write ev \<and> evs' = [Select_current_timestamp, ev, Rollback]))"
proof -
  obtain evs where m: "snd (match_domain e name domain url (after_lookup url w)) =
      (after_lookup url w)\<lparr>log := log (after_lookup url w) @ evs\<rparr>"
    and evs: "evs \<in> (if domain = ''microcenter'' \<or> domain = ''amazon''
            then {[Get url], [Get url, Print_timeout]} else {[Warn name domain]})"
    using match_domain_world by blast
  obtain r w4 where r: "match_domain e name domain url (after_lookup url w) = (r, w4)"
    by (cases "match_domain e name domain url (after_lookup url w)")
  with m have w4: "w4 = (after_lookup url w)\<lparr>log := log (after_lookup url w) @ evs\<rparr>" by simp
  show ?thesis
  proof (cases r)
    case (Inl x)
    then have "get_pricing e name (Some url) w =
       (Inl x, w\<lparr>ticks := Suc (ticks w),
          log := log w @ [Select_price url, Select_time url, Select_current_timestamp, Commit]
                   @ evs @ []\<rparr>)"
      using get_pricing_miss[OF assms] r w4 by (simp add: after_lookup_def)
    with evs show ?thesis by (intro exI conjI) (assumption, assumption, simp)
  next
    case (Inr fetched)
    let ?ev = "if find (\<lambda>r. fst r = url) (table w) \<noteq> None
               then Update_prices fetched (clock e (Suc (ticks w))) url
               else Insert_prices url fetched (clock e (Suc (ticks w)))"
    have "get_pricing e name (Some url) w =
       (Inl AttributeError, w\<lparr>ticks := Suc (Suc (ticks w)),
          log := log w @ [Select_price url, Select_time url, Select_current_timestamp, Commit]
                   @ evs @ [Select_current_timestamp, ?ev, Rollback]\<rparr>)"
      using get_pricing_miss[OF assms] r w4 Inr
      by (simp add: after_lookup_def record_price_raises)
    moreover have "is_write ?ev" by simp
    ultimately show ?thesis using evs by (intro exI conjI) (assumption, assumption, blast)
  qed
qed

lemma get_pricing_unsupported:
  assumes "url_domain url = Inr domain" and "no_fresh_row e url w"
    and "domain \<noteq> ''microcenter''" and "domain \<noteq> ''amazon''"
  shows "get_pricing e name (Some url) w =
     (Inl AttributeError,
      w\<lparr>ticks := Suc (Suc (ticks w)),
        log := log w @ [Select_price url, Select_time url, Select_current_timestamp, Commit,
          Warn name domain, Select_current_timestamp,
          if find (\<lambda>r. fst r = url) (table w) \<noteq> None
          then Update_prices (Fin float_info_max) (clock e (Suc (ticks w))) url
          else Insert_prices url (Fin float_info_max) (clock e (Suc (ticks w))),
          Rollback]\<rparr>)"
  using assms(3,4)
  by (simp add: get_pricing_miss[OF assms(1,2)] match_domain_def record_price_raises
      after_lookup_def emit_def)

text \<open>
  No call changes the committed table: the hit only reads, domain parsing fails before
  the first query, and every write is rolled back. So a table with at most one row per
  URL keeps that shape, and no stored timestamp ever moves.
\<close>

lemma get_pricing_table: "table (snd (get_pricing e name url w)) = table w"
proof (cases url)
  case None
  then show ?thesis by (simp add: get_pricing_def)
next
  case (Some u)
  show ?thesis
  proof (cases "url_domain u")
    case (Inl x)
    with Some show ?thesis by (simp add: get_pricing_def)
  next
    case (Inr domain)
    show ?thesis
    proof (cases "no_fresh_row e u w")
      case True
      from get_pricing_miss_world[OF Inr True, of name] Some show ?thesis by auto
    next
      case False
      then obtain key price t where "find (\<lambda>r. fst r = u) (table w) = Some (key, price, t)"
        "clock e (ticks w) - t \<le> 86400"
        by (auto simp: no_fresh_row_def split: option.splits)
      from get_pricing_hit[OF Inr this, of name] Some show ?thesis by simp
    qed
  qed
qed

text \<open>Past domain parsing, a call without a fresh row never returns a price.\<close>

lemma get_pricing_miss_raises:
  assumes "url_domain url = Inr domain" and "no_fresh_row e url w"
  shows "\<exists>x. fst (get_pricing e name (Some url) w) = Inl x"
  using get_pricing_miss_world[OF assms, of name] by auto

text \<open>The loop of \<^verbatim>\<open>best_price\<close> keeps the least price seen so far.\<close>

lemma best_price_loop_Min:
  "get_pricings e name ls w = (Inr ps, w') \<Longrightarrow>
   best_price_loop e name ls m w = (Inr (Min (insert m (set ps))), w')"
proof (induction ls arbitrary: m w ps)
  case Nil
  then show ?case by simp
next
  case (Cons link rest)
  obtain r w1 where r: "get_pricing e name link w = (r, w1)"
    by (cases "get_pricing e name link w")
  with Cons.prems obtain price where price: "r = Inr price"
    by (cases r) auto
  obtain r2 w2 where r2: "get_pricings e name rest w1 = (r2, w2)"
    by (cases "get_pricings e name rest w1")
  with Cons.prems r price obtain qs where qs: "r2 = Inr qs" "ps = price # qs" "w2 = w'"
    by (cases r2) auto
  have "best_price_loop e name rest (if price < m then price else m) w1 =
      (Inr (Min (insert (if price < m then price else m) (set qs))), w')"
    using Cons.IH r2 qs by simp
  moreover have "Min (insert (if price < m then price else m) (set qs)) =
      Min (insert m (set (price # qs)))"
  proof -
    have "(if price < m then price else m) = min m price" by (auto simp: min_def)
    moreover have "Min (insert (min m price) (set qs)) = Min (insert m (insert price (set qs)))"
      by (cases "set qs = {}") (simp_all add: min.assoc)
    ultimately show ?thesis by simp
  qed
  ultimately show ?case using r price qs by simp
qed

text \<open>
  With the sentinel \<^verbatim>\<open>np.inf\<close> as a best price, the total of the report leaves it
  out: a part priced 5.0 and a part without links total 5.0.
\<close>

lemma report_build_inf_in_total:
  "fst (report_build (no_pages 3600)
     \<lparr>build_name = ''Build'',
      parts = [\<lparr>product_name = ''ram'',
                 links = [(''microcenter'', Some ''https://www.microcenter.com/product/1'')]\<rparr>,
               \<lparr>product_name = ''gpu'', links = []\<rparr>],
      prices = []\<rparr> ''build.csv''
     (cache [(''https://www.microcenter.com/product/1'', Fin 5, 0)])) =
   Inr (\<lparr>build_name = ''Build'',
      parts = [\<lparr>product_name = ''ram'',
                 links = [(''microcenter'', Some ''https://www.microcenter.com/product/1'')]\<rparr>,
               \<lparr>product_name = ''gpu'', links = []\<rparr>],
      prices = [(''ram'', Fin 5), (''gpu'', PInf)]\<rparr>,
        5,
        [(''ram'', Fin 5), (''gpu'', PInf), (''Total'', Fin 5)])"
  by (simp add: report_build_def best_price_def Let_def
      get_pricing_def url_domain_def index_def select_price_def select_time_def
      current_timestamp_def commit_def emit_def cache_def no_pages_def)

section \<open>The claims\<close>

subsection \<open>C1: a fresh record is returned without extraction\<close>

text \<open>
  Claim C1 as stated: for every URL with a record in the cache whose timestamp is within
  the freshness window, \<^verbatim>\<open>get_pricing\<close> returns the cached price and extracts
  nothing. It fails for a URL whose domain does not parse: \<^verbatim>\<open>http://localhost/x\<close> has
  a row that is 100 seconds old, both queries would find it, and the call raises
  \<^verbatim>\<open>IndexError\<close> before it reaches them.
\<close>

theorem get_pricing_fresh_hit_counterexample:
  "fst (select_price ''http://localhost/x'' (cache [(''http://localhost/x'', Fin 5, 0)]))
     = Some (Fin 5) \<and>
   fst (select_time ''http://localhost/x'' (cache [(''http://localhost/x'', Fin 5, 0)]))
     = Some 0 \<and>
   clock (no_pages 100) (ticks (cache [(''http://localhost/x'', Fin 5, 0)])) - 0 \<le> 86400 \<and>
   get_pricing (no_pages 100) ''cpu'' (Some ''http://localhost/x'')
     (cache [(''http://localhost/x'', Fin 5, 0)])
   = (Inl IndexError, cache [(''http://localhost/x'', Fin 5, 0)])"
  by (simp add: run_defs no_pages_def)

text \<open>
  Claim C1, amended: for every URL whose domain parses and whose first row in the table
  is at most 86400 seconds old at the call, \<^verbatim>\<open>get_pricing\<close> returns the price of that
  row, and the call neither navigates, nor prints a timeout, nor warns: the
  \<^verbatim>\<open>match\<close> statement is not reached.
\<close>

theorem get_pricing_fresh_hit:
  assumes "url_domain url = Inr domain"
    and "find (\<lambda>r. fst r = url) (table w) = Some (key, price, t)"
    and "clock e (ticks w) - t \<le> 86400"
  shows "fst (get_pricing e name (Some url) w) = Inr price \<and>
         (\<forall>ev\<in>set (new_events w (snd (get_pricing e name (Some url) w))).
            \<not> is_get ev \<and> \<not> is_warn ev \<and> ev \<noteq> Print_timeout)"
  by (simp add: get_pricing_hit[OF assms] new_events_def)

text \<open>Claim C1, an instance: a row checked an hour ago.\<close>

theorem get_pricing_fresh_hit_witness:
  "fst (get_pricing (no_pages 3600) ''cpu'' (Some ''https://www.microcenter.com/product/1'')
     (cache [(''https://www.microcenter.com/product/1'', Fin 5, 0)])) = Inr (Fin 5)"
proof -
  have "url_domain ''https://www.microcenter.com/product/1'' = Inr ''microcenter''"
    by (simp add: url_domain_def index_def)
  moreover have "find (\<lambda>r. fst r = ''https://www.microcenter.com/product/1'')
      (table (cache [(''https://www.microcenter.com/product/1'', Fin 5, 0)]))
      = Some (''https://www.microcenter.com/product/1'', Fin 5, 0)"
    by (simp add: cache_def)
  moreover have "clock (no_pages 3600)
      (ticks (cache [(''https://www.microcenter.com/product/1'', Fin 5, 0)])) - 0 \<le> 86400"
    by (simp add: no_pages_def)
  ultimately show ?thesis
    using get_pricing_fresh_hit by blast
qed

subsection \<open>C2: the freshness window\<close>

text \<open>
  Claim C2: a cached record counts as fresh if and only if the clock minus its stored
  timestamp is at most 86400 seconds. Past domain parsing, the call takes the cached
  return (it prints that the price is still recent and returns the price of the row)
  exactly when the difference is at most 86400, and it enters the fetch path (a
  navigation for a supported domain, the warning otherwise) exactly when the difference
  is larger.
\<close>

theorem freshness_window:
  assumes "url_domain url = Inr domain"
    and "find (\<lambda>r. fst r = url) (table w) = Some (key, price, t)"
  shows "(Print_recent name domain \<in> set (new_events w (snd (get_pricing e name (Some url) w)))
            \<longleftrightarrow> clock e (ticks w) - t \<le> 86400) \<and>
         ((\<exists>ev\<in>set (new_events w (snd (get_pricing e name (Some url) w))). is_get ev \<or> is_warn ev)
            \<longleftrightarrow> 86400 < clock e (ticks w) - t) \<and>
         (clock e (ticks w) - t \<le> 86400 \<longrightarrow> fst (get_pricing e name (Some url) w) = Inr price)"
proof (cases "clock e (ticks w) - t \<le> 86400")
  case True
  show ?thesis
    using True by (simp add: get_pricing_hit[OF assms True] new_events_def)
next
  case False
  then have nf: "no_fresh_row e url w"
    using assms(2) by (simp add: no_fresh_row_def)
  obtain x evs evs' n where
    r: "get_pricing e name (Some url) w =
       (Inl x, w\<lparr>ticks := n,
          log := log w @ [Select_price url, Select_time url, Select_current_timestamp, Commit]
                   @ evs @ evs'\<rparr>)"
    and evs: "evs \<in> (if domain = ''microcenter'' \<or> domain = ''amazon''
            then {[Get url], [Get url, Print_timeout]} else {[Warn name domain]})"
    and evs': "evs' = [] \<or> (\<exists>ev. is_write ev \<and> evs' = [Select_current_timestamp, ev, Rollback])"
    using get_pricing_miss_world[OF assms(1) nf, of name] by blast
  have new: "new_events w (snd (get_pricing e name (Some url) w)) =
      [Select_price url, Select_time url, Select_current_timestamp, Commit] @ evs @ evs'"
    by (simp add: r new_events_def)
  have a: "Print_recent name domain \<notin> set evs"
    using evs by (auto split: if_splits)
  have b: "Print_recent name domain \<notin> set evs'"
    using evs' by auto
  have c: "\<exists>ev\<in>set evs. is_get ev \<or> is_warn ev"
    using evs by (auto split: if_splits)
  show ?thesis
    using False a b c by (auto simp: new)
qed

text \<open>
  Claim C2, at the boundary: a row exactly 86400 seconds old is still recent, and one
  second later the page is loaded again.
\<close>

theorem freshness_window_witness:
  "Print_recent ''cpu'' ''microcenter'' \<in> set (new_events
      (cache [(''https://www.microcenter.com/product/1'', Fin 5, 0)])
      (snd (get_pricing (no_pages 86400) ''cpu'' (Some ''https://www.microcenter.com/product/1'')
         (cache [(''https://www.microcenter.com/product/1'', Fin 5, 0)])))) \<and>
   Get ''https://www.microcenter.com/product/1'' \<in> set (new_events
      (cache [(''https://www.microcenter.com/product/1'', Fin 5, 0)])
      (snd (get_pricing (no_pages 86401) ''cpu'' (Some ''https://www.microcenter.com/product/1'')
         (cache [(''https://www.microcenter.com/product/1'', Fin 5, 0)]))))"
proof -
  let ?u = "''https://www.microcenter.com/product/1''"
  let ?w = "cache [(?u, Fin 5, 0)]"
  have d: "url_domain ?u = Inr ''microcenter''"
    by (simp add: url_domain_def index_def)
  have f: "find (\<lambda>r. fst r = ?u) (table ?w) = Some (?u, Fin 5, 0)"
    by (simp add: cache_def)
  have "Print_recent ''cpu'' ''microcenter'' \<in> set (new_events ?w
      (snd (get_pricing (no_pages 86400) ''cpu'' (Some ?u) ?w)))"
    using freshness_window[OF d f, of "''cpu''" "no_pages 86400"]
    by (simp add: no_pages_def cache_def)
  moreover have "Get ?u \<in> set (new_events ?w
      (snd (get_pricing (no_pages 86401) ''cpu'' (Some ?u) ?w)))"
    by (simp add: run_defs no_pages_def)
  ultimately show ?thesis by blast
qed

subsection \<open>C3: one row per URL, updated in place\<close>

text \<open>
  Claim C3 says that a request for a stale URL updates the existing row in place. The
  code runs the \<^verbatim>\<open>UPDATE\<close> and then raises \<^verbatim>\<open>AttributeError\<close> while it formats
  \<^verbatim>\<open>price.round(2)\<close>, inside the \<^verbatim>\<open>with\<close> block and before the commit: the
  statement is rolled back. Here the row is 100000 seconds old and the page shows 7.0;
  after the call the row still holds 5.0 and its old timestamp.
\<close>

theorem stale_update_rolled_back:
  "get_pricing (priced_pages 100000) ''cpu'' (Some ''https://www.microcenter.com/product/1'')
     (cache [(''https://www.microcenter.com/product/1'', Fin 5, 0)]) =
   (Inl AttributeError,
    \<lparr>table = [(''https://www.microcenter.com/product/1'', Fin 5, 0)], ticks = 2,
     log = [Select_price ''https://www.microcenter.com/product/1'',
            Select_time ''https://www.microcenter.com/product/1'',
            Select_current_timestamp, Commit,
            Get ''https://www.microcenter.com/product/1'',
            Select_current_timestamp,
            Update_prices (Fin 7) 100000 ''https://www.microcenter.com/product/1'',
            Rollback]\<rparr>)"
  by (simp add: run_defs priced_pages_def)

subsection \<open>C4: a failed extraction is cached\<close>

text \<open>
  Claim C4 says that a failed extraction stores the sentinel, so that a second call within
  the window returns it from the cache. The code takes \<^verbatim>\<open>np.inf\<close> as the price, runs
  the \<^verbatim>\<open>INSERT\<close>, raises \<^verbatim>\<open>AttributeError\<close> on \<^verbatim>\<open>price.round(2)\<close> and rolls
  back: nothing is stored and nothing is returned, and the second call loads the page
  again and raises again.
\<close>

theorem failed_extraction_not_cached:
  "get_pricing (no_pages 100) ''cpu'' (Some ''https://www.microcenter.com/product/1'') (cache []) =
   (Inl AttributeError,
    \<lparr>table = [], ticks = 2,
     log = [Select_price ''https://www.microcenter.com/product/1'',
            Select_time ''https://www.microcenter.com/product/1'',
            Select_current_timestamp, Commit,
            Get ''https://www.microcenter.com/product/1'', Print_timeout,
            Select_current_timestamp,
            Insert_prices ''https://www.microcenter.com/product/1'' PInf 100,
            Rollback]\<rparr>) \<and>
   get_pricing (no_pages 100) ''cpu'' (Some ''https://www.microcenter.com/product/1'')
     (snd (get_pricing (no_pages 100) ''cpu'' (Some ''https://www.microcenter.com/product/1'')
        (cache []))) =
   (Inl AttributeError,
    \<lparr>table = [], ticks = 4,
     log = [Select_price ''https://www.microcenter.com/product/1'',
            Select_time ''https://www.microcenter.com/product/1'',
            Select_current_timestamp, Commit,
            Get ''https://www.microcenter.com/product/1'', Print_timeout,
            Select_current_timestamp,
            Insert_prices ''https://www.microcenter.com/product/1'' PInf 100,
            Rollback,
            Select_price ''https://www.microcenter.com/product/1'',
            Select_time ''https://www.microcenter.com/product/1'',
            Select_current_timestamp, Commit,
            Get ''https://www.microcenter.com/product/1'', Print_timeout,
            Select_current_timestamp,
            Insert_prices ''https://www.microcenter.com/product/1'' PInf 100,
            Rollback]\<rparr>)"
  by (simp add: run_defs no_pages_def)

subsection \<open>C5: the total of the report\<close>

text \<open>
  Claim C5 says that every sentinel price, unknown or unavailable, adds 0 to the total.
  The report leaves out \<^verbatim>\<open>np.inf\<close> only; the price the code takes for an unsupported
  domain is \<^verbatim>\<open>sys.float_info.max\<close>, which is below \<^verbatim>\<open>np.inf\<close> and is added. For
  best prices 5.0 and that sentinel the total is not 5.0. (The sum is exact here; in
  double precision it rounds to \<^verbatim>\<open>sys.float_info.max\<close>.)
\<close>

theorem report_build_float_max_in_total:
  "fst (report_build (no_pages 3600) two_part_build ''build.csv''
     (cache [(''https://www.microcenter.com/product/1'', Fin 5, 0),
             (''https://www.newegg.com/p/1'', Fin float_info_max, 0)])) =
   Inr (two_part_build\<lparr>prices := [(''ram'', Fin 5), (''gpu'', Fin float_info_max)]\<rparr>,
        5 + float_info_max,
        [(''ram'', Fin 5), (''gpu'', Fin float_info_max), (''Total'', Fin (5 + float_info_max))]) \<and>
   5 + float_info_max \<noteq> (5::real)"
  using float_info_max_pos
  by (simp add: report_build_def best_price_def two_part_build_def Let_def
      get_pricing_def url_domain_def index_def select_price_def select_time_def
      current_timestamp_def commit_def emit_def cache_def no_pages_def)

subsection \<open>C6: the best price is the minimum\<close>

text \<open>
  Claim C6: when \<^verbatim>\<open>get_pricing\<close> returns the prices \<open>ps\<close> for the links of a product,
  \<^verbatim>\<open>best_price\<close> returns their minimum (\<^verbatim>\<open>np.inf\<close> when there is none). It is at
  most every price obtained, so neither sentinel, \<^verbatim>\<open>np.inf\<close> or
  \<^verbatim>\<open>sys.float_info.max\<close>, is returned when some price obtained is below it.
\<close>

theorem best_price_minimum:
  assumes "get_pricings e (product_name p) (map snd (links p)) w = (Inr ps, w')"
  shows "fst (best_price e p w) = Inr (Min (insert PInf (set ps))) \<and>
         (\<forall>q\<in>set ps. Min (insert PInf (set ps)) \<le> q) \<and>
         (\<forall>q\<in>set ps. q < PInf \<longrightarrow> Min (insert PInf (set ps)) < PInf) \<and>
         (\<forall>q\<in>set ps. q < Fin float_info_max \<longrightarrow>
            Min (insert PInf (set ps)) < Fin float_info_max)"
proof -
  have "fst (best_price e p w) = Inr (Min (insert PInf (set ps)))"
    using best_price_loop_Min[OF assms, of PInf] by (simp add: best_price_def)
  moreover have le: "\<And>q. q \<in> set ps \<Longrightarrow> Min (insert PInf (set ps)) \<le> q"
    by simp
  ultimately show ?thesis
    by (meson le_less_trans)
qed

text \<open>
  Claim C6, the example: a retailer at 10.0, a retailer without a URL and a retailer at
  7.5 give 7.5.
\<close>

theorem best_price_minimum_witness:
  "fst (best_price (no_pages 3600)
     \<lparr>product_name = ''cpu'',
      links = [(''microcenter'', Some ''https://www.microcenter.com/product/1''),
               (''newegg'', None),
               (''amazon'', Some ''https://www.amazon.com/dp/B0'')]\<rparr>
     (cache [(''https://www.microcenter.com/product/1'', Fin 10, 0),
             (''https://www.amazon.com/dp/B0'', Fin 7.5, 0)])) = Inr (Fin 7.5)"
proof -
  let ?p = "\<lparr>product_name = ''cpu'',
      links = [(''microcenter'', Some ''https://www.microcenter.com/product/1''),
               (''newegg'', None),
               (''amazon'', Some ''https://www.amazon.com/dp/B0'')]\<rparr>"
  let ?w = "cache [(''https://www.microcenter.com/product/1'', Fin 10, 0),
             (''https://www.amazon.com/dp/B0'', Fin 7.5, 0)]"
  have "fst (get_pricings (no_pages 3600) (product_name ?p) (map snd (links ?p)) ?w) =
     Inr [Fin 10, PInf, Fin 7.5]"
    by (simp add: get_pricing_def url_domain_def index_def select_price_def select_time_def
        current_timestamp_def commit_def emit_def no_pages_def cache_def)
  then obtain w' where
    h: "get_pricings (no_pages 3600) (product_name ?p) (map snd (links ?p)) ?w =
     (Inr [Fin 10, PInf, Fin 7.5], w')"
    by (metis prod.collapse)
  show ?thesis
    using best_price_minimum[OF h] by (simp add: min_def)
qed

subsection \<open>C7: unsupported domains\<close>

text \<open>
  Claim C7 says that for a URL whose domain is not supported \<^verbatim>\<open>get_pricing\<close> emits
  a warning and returns the sentinel to its caller. For a URL of another shop and an
  empty table the code emits the warning, sets the price and runs the \<^verbatim>\<open>INSERT\<close>;
  then \<^verbatim>\<open>price.round(2)\<close> raises \<^verbatim>\<open>AttributeError\<close> before the
  \<^verbatim>\<open>return price\<close> is reached. The caller receives the exception and no sentinel,
  and the statement is rolled back.
\<close>

theorem unsupported_domain_no_sentinel_returned:
  "get_pricing (no_pages 100) ''gpu'' (Some ''https://www.newegg.com/p/1'') (cache []) =
   (Inl AttributeError,
    \<lparr>table = [], ticks = 2,
     log = [Select_price ''https://www.newegg.com/p/1'',
            Select_time ''https://www.newegg.com/p/1'',
            Select_current_timestamp, Commit,
            Warn ''gpu'' ''newegg'',
            Select_current_timestamp,
            Insert_prices ''https://www.newegg.com/p/1'' (Fin float_info_max) 100,
            Rollback]\<rparr>)"
  by (simp add: run_defs no_pages_def)

subsection \<open>C8: no operation raises\<close>

text \<open>
  Claim C8 says that \<^verbatim>\<open>get_pricing\<close>, \<^verbatim>\<open>best_price\<close> and \<^verbatim>\<open>report_build\<close>
  end normally on every input. For a URL of an unsupported domain and an empty table, the
  warning is emitted and the price is set, then \<^verbatim>\<open>price.round(2)\<close> raises
  \<^verbatim>\<open>AttributeError\<close>; nothing catches it, so all three raise.
\<close>

theorem unsupported_domain_raises:
  "fst (get_pricing (no_pages 100) ''gpu'' (Some ''https://www.newegg.com/p/1'') (cache []))
     = Inl AttributeError \<and>
   fst (best_price (no_pages 100)
     \<lparr>product_name = ''gpu'', links = [(''newegg'', Some ''https://www.newegg.com/p/1'')]\<rparr>
     (cache [])) = Inl AttributeError \<and>
   fst (report_build (no_pages 100)
     \<lparr>build_name = ''Build'',
      parts = [\<lparr>product_name = ''gpu'',
                 links = [(''newegg'', Some ''https://www.newegg.com/p/1'')]\<rparr>],
      prices = []\<rparr> ''build.csv'' (cache [])) = Inl AttributeError"
  by (simp add: report_build_def best_price_def run_defs no_pages_def)

subsection \<open>C9: a hit leaves the table alone\<close>

text \<open>
  Claim C9: on a fresh cache hit \<^verbatim>\<open>get_pricing\<close> returns the cached price, the table
  after the call is the table before it, and the call sends no \<^verbatim>\<open>INSERT\<close> and no
  \<^verbatim>\<open>UPDATE\<close> (the program has no \<^verbatim>\<open>DELETE\<close>).
\<close>

theorem fresh_hit_table_unchanged:
  assumes "url_domain url = Inr domain"
    and "find (\<lambda>r. fst r = url) (table w) = Some (key, price, t)"
    and "clock e (ticks w) - t \<le> 86400"
  shows "fst (get_pricing e name (Some url) w) = Inr price \<and>
         table (snd (get_pricing e name (Some url) w)) = table w \<and>
         (\<forall>ev\<in>set (new_events w (snd (get_pricing e name (Some url) w))). \<not> is_write ev)"
  by (simp add: get_pricing_hit[OF assms] new_events_def)

text \<open>Claim C9, an instance: a table of two rows, a hit on the second.\<close>

theorem fresh_hit_table_unchanged_witness:
  "table (snd (get_pricing (no_pages 3600) ''cpu'' (Some ''https://www.amazon.com/dp/B0'')
     (cache [(''https://www.microcenter.com/product/1'', Fin 10, 0),
             (''https://www.amazon.com/dp/B0'', Fin 7.5, 0)]))) =
   [(''https://www.microcenter.com/product/1'', Fin 10, 0),
    (''https://www.amazon.com/dp/B0'', Fin 7.5, 0)]"
proof -
  let ?w = "cache [(''https://www.microcenter.com/product/1'', Fin 10, 0),
             (''https://www.amazon.com/dp/B0'', Fin 7.5, 0)]"
  have d: "url_domain ''https://www.amazon.com/dp/B0'' = Inr ''amazon''"
    by (simp add: url_domain_def index_def)
  have f: "find (\<lambda>r. fst r = ''https://www.amazon.com/dp/B0'') (table ?w) =
      Some (''https://www.amazon.com/dp/B0'', Fin 7.5, 0)"
    by (simp add: cache_def)
  have c: "clock (no_pages 3600) (ticks ?w) - 0 \<le> 86400"
    by (simp add: no_pages_def)
  show ?thesis
    using fresh_hit_table_unchanged[OF d f c, of "''cpu''"] by (simp add: cache_def)
qed

subsection \<open>C10: URLs whose domain does not parse\<close>

text \<open>
  Claim C10: for every URL string with fewer than two \<^verbatim>\<open>/\<close>, or whose third
  \<^verbatim>\<open>/\<close>-separated segment has no \<^verbatim>\<open>.\<close>, \<^verbatim>\<open>get_pricing\<close> raises
  \<^verbatim>\<open>IndexError\<close> and leaves the world as it was: no query, no read of the clock, no
  navigation.
\<close>

theorem get_pricing_index_error:
  assumes "count_list url CHR ''/'' < 2 \<or> CHR ''.'' \<notin> set (split CHR ''/'' url ! 2)"
  shows "get_pricing e name (Some url) w = (Inl IndexError, w)"
  by (simp add: get_pricing_def url_domain_index_error[OF assms])

text \<open>Claim C10, two instances: a URL without a scheme, and a host without a dot.\<close>

theorem get_pricing_index_error_witness:
  "get_pricing (no_pages 100) ''cpu'' (Some ''microcenter.com/product'') (cache []) =
     (Inl IndexError, cache []) \<and>
   get_pricing (no_pages 100) ''cpu'' (Some ''http://localhost/x'')
     (cache [(''http://localhost/x'', Fin 5, 0)]) =
     (Inl IndexError, cache [(''http://localhost/x'', Fin 5, 0)])"
proof -
  have "count_list ''microcenter.com/product'' CHR ''/'' < 2" by simp
  moreover have "CHR ''.'' \<notin> set (split CHR ''/'' ''http://localhost/x'' ! 2)" by simp
  ultimately show ?thesis
    using get_pricing_index_error by blast
qed

end
